theory Spec2Isabelle
  imports Complex_Main "HOL-Library.Word" "HOL-Library.Log_Nat"
begin

unbundle bit_operations_syntax

section \<open>JavaScript values of the wizard\<close>

text \<open>
  The configuration wizard is TypeScript running in a browser. Its strings are sequences
  of UTF-16 code units (\<open>charCodeAt\<close> returns a value in 0..65535), its numbers are
  doubles. A number is modelled as the rational it denotes: the finite doubles are
  rationals, and the comparisons, \<open>Math.max\<close>, \<open>Math.ceil\<close> and \<open>Math.round\<close>
  of the wizard are exact on them. The division of \<open>calculateTotalRacks\<close> rounds its
  quotient to the nearest double (\<open>js_div\<close> below). The products and the division by
  10 of \<open>calculatePowerConsumption\<close> are the exact ones. NaN, the infinities and
  negative zero are outside the model.
\<close>

type_synonym jsstring = "16 word list"
type_synonym number = rat

definition js :: "string \<Rightarrow> jsstring" where
  "js s = map of_char s"

datatype jsval =
    JUndefined
  | JNull
  | JBool bool
  | JNum number
  | JStr jsstring
  | JArr "jsval list"
  | JObj "(jsstring \<times> jsval) list"

datatype error = TypeError

text \<open>A statement that can raise, followed by the rest of the function.\<close>

definition and_then :: "error + 'a \<Rightarrow> ('a \<Rightarrow> error + 'b) \<Rightarrow> error + 'b" where
  "and_then r f = (case r of Inl e \<Rightarrow> Inl e | Inr v \<Rightarrow> f v)"

subsection \<open>Number to string\<close>

definition digit :: "nat \<Rightarrow> 16 word" where
  "digit d = of_nat (48 + d)"

fun nat_digits :: "nat \<Rightarrow> jsstring" where
  "nat_digits n = (if n < 10 then [digit n] else nat_digits (n div 10) @ [digit (n mod 10)])"

declare nat_digits.simps [simp del]

definition int_toString :: "int \<Rightarrow> jsstring" where
  "int_toString i = (if i < 0 then 45 # nat_digits (nat (- i)) else nat_digits (nat i))"

fun frac_digits :: "nat \<Rightarrow> rat \<Rightarrow> jsstring" where
  "frac_digits 0 r = []"
| "frac_digits (Suc k) r =
     (if r = 0 then []
      else digit (nat \<lfloor>r * 10\<rfloor>) # frac_digits k (r * 10 - of_int \<lfloor>r * 10\<rfloor>))"

text \<open>
  \<open>Number.prototype.toString\<close> (radix 10). An integral number prints as its decimal
  digits with a leading minus sign when negative; this is exact below \<open>10^21\<close>. A
  number with a fractional part prints its integer part, a point and its decimal
  expansion, cut after 17 digits; this is what the platform prints for the short decimal
  fractions the wizard holds (an efficiency 0.95, a consumption with one decimal).
\<close>

definition Number_toString :: "number \<Rightarrow> jsstring" where
  "Number_toString q =
     (if q = of_int \<lfloor>q\<rfloor> then int_toString \<lfloor>q\<rfloor>
      else (if q < 0 then [45] else []) @ nat_digits (nat \<lfloor>\<bar>q\<bar>\<rfloor>) @ [46]
           @ frac_digits 17 (\<bar>q\<bar> - of_int \<lfloor>\<bar>q\<bar>\<rfloor>))"

subsection \<open>32-bit integer operators\<close>

text \<open>
  The bitwise operators convert their operands with ToInt32 (reduction modulo \<open>2^32\<close>
  into the signed range), work on 32 bits and give back a signed 32-bit number. The shift
  count is taken modulo 32. \<open>+\<close> and \<open>-\<close> are double arithmetic and do not wrap;
  they are exact on integers below \<open>2^53\<close> in magnitude.
\<close>

definition ToInt32 :: "int \<Rightarrow> int" where
  "ToInt32 x = sint (word_of_int x :: 32 word)"

definition js_shl :: "int \<Rightarrow> nat \<Rightarrow> int" where
  "js_shl a n = sint (push_bit (n mod 32) (word_of_int a :: 32 word))"

definition js_and :: "int \<Rightarrow> int \<Rightarrow> int" where
  "js_and a b = sint ((word_of_int a :: 32 word) AND word_of_int b)"

subsection \<open>Division\<close>

text \<open>
  The quotient of two doubles is the double nearest to the exact quotient, ties going to
  the even significand. For a positive \<open>q\<close>, \<open>binade q\<close> is the exponent \<open>e\<close>
  with \<open>2^e \<le> q < 2^(e+1)\<close>; the doubles of that binade are the multiples of
  \<open>2^(e-52)\<close>, and below \<open>2^(-1022)\<close> the multiples of \<open>2^(-1074)\<close>. Quotients
  of \<open>2^1024\<close> and more, which give Infinity, are outside the model.
\<close>

definition binade :: "rat \<Rightarrow> int" where
  "binade q =
     (let (a, b) = quotient_of q;
          e = bitlen a - bitlen b
      in if power_int 2 e \<le> q then e else e - 1)"

definition round_half_even :: "rat \<Rightarrow> int" where
  "round_half_even m =
     (let f = \<lfloor>m\<rfloor>; r = m - of_int f
      in if r < 1 / 2 then f
         else if 1 / 2 < r then f + 1
         else if even f then f else f + 1)"

definition round_double :: "rat \<Rightarrow> rat" where
  "round_double q =
     (if q = 0 then 0
      else (let e = max (binade \<bar>q\<bar>) (- 1022);
                ulp = power_int 2 (e - 52)
            in sgn q * of_int (round_half_even (\<bar>q\<bar> / ulp)) * ulp))"

text \<open>\<open>x / y\<close> for a divisor that is not zero.\<close>

definition js_div :: "number \<Rightarrow> number \<Rightarrow> number" where
  "js_div x y = round_double (x / y)"

subsection \<open>Truthiness and property access\<close>

fun truthy :: "jsval \<Rightarrow> bool" where
  "truthy JUndefined = False"
| "truthy JNull = False"
| "truthy (JBool b) = b"
| "truthy (JNum q) = (q \<noteq> 0)"
| "truthy (JStr s) = (s \<noteq> [])"
| "truthy (JArr xs) = True"
| "truthy (JObj ps) = True"

text \<open>\<open>a || b\<close>: the left operand when it is truthy, the right one otherwise.\<close>

definition js_or :: "jsval \<Rightarrow> jsval \<Rightarrow> jsval" where
  "js_or a b = (if truthy a then a else b)"

definition num_or :: "number \<Rightarrow> number \<Rightarrow> number" where
  "num_or a b = (if a \<noteq> 0 then a else b)"

text \<open>
  \<open>v.k\<close>: a TypeError on undefined and null, the own property of an object, and
  undefined on a value that has no such property. The wizard reads the keys \<open>name\<close>
  and \<open>id\<close> only, which no string, number, boolean or array has.
\<close>

fun get_member :: "jsval \<Rightarrow> jsstring \<Rightarrow> error + jsval" where
  "get_member JUndefined k = Inl TypeError"
| "get_member JNull k = Inl TypeError"
| "get_member (JObj ps) k = Inr (case map_of ps k of None \<Rightarrow> JUndefined | Some v \<Rightarrow> v)"
| "get_member v k = Inr JUndefined"

text \<open>\<open>v?.k\<close>: undefined when \<open>v\<close> is undefined or null, \<open>v.k\<close> otherwise.\<close>

definition opt_member :: "jsval \<Rightarrow> jsstring \<Rightarrow> error + jsval" where
  "opt_member v k = (if v = JUndefined \<or> v = JNull then Inr JUndefined else get_member v k)"

subsection \<open>JSON.stringify\<close>

definition hex_digit :: "nat \<Rightarrow> 16 word" where
  "hex_digit d = (if d < 10 then of_nat (48 + d) else of_nat (87 + d))"

definition unicode_escape :: "16 word \<Rightarrow> jsstring" where
  "unicode_escape c =
     (let n = unat c
      in [92, 117, hex_digit (n div 4096), hex_digit (n div 256 mod 16),
          hex_digit (n div 16 mod 16), hex_digit (n mod 16)])"

definition is_surrogate :: "16 word \<Rightarrow> bool" where
  "is_surrogate c = (0xD800 \<le> c \<and> c \<le> 0xDFFF)"

definition quote_unit :: "16 word \<Rightarrow> jsstring" where
  "quote_unit c =
     (if c = 8 then [92, 98]
      else if c = 9 then [92, 116]
      else if c = 10 then [92, 110]
      else if c = 12 then [92, 102]
      else if c = 13 then [92, 114]
      else if c = 34 then [92, 34]
      else if c = 92 then [92, 92]
      else if c < 32 \<or> is_surrogate c then unicode_escape c
      else [c])"

text \<open>A high surrogate followed by a low one is a character and is kept; a lone
  surrogate is escaped.\<close>

fun quote_units :: "jsstring \<Rightarrow> jsstring" where
  "quote_units [] = []"
| "quote_units [c] = quote_unit c"
| "quote_units (c # d # cs) =
     (if 0xD800 \<le> c \<and> c \<le> 0xDBFF \<and> 0xDC00 \<le> d \<and> d \<le> 0xDFFF
      then c # d # quote_units cs
      else quote_unit c @ quote_units (d # cs))"

definition QuoteJSONString :: "jsstring \<Rightarrow> jsstring" where
  "QuoteJSONString s = 34 # quote_units s @ [34]"

fun join_comma :: "jsstring list \<Rightarrow> jsstring" where
  "join_comma [] = []"
| "join_comma [s] = s"
| "join_comma (s # t # ss) = s @ 44 # join_comma (t # ss)"

text \<open>
  \<open>JSON.stringify\<close> without replacer or indentation. It gives undefined (here
  \<open>None\<close>) on undefined; a property whose value is undefined is left out of its object;
  an undefined array element prints as \<open>null\<close>. Properties print in the order the
  object holds them.
\<close>

fun JSON_stringify :: "jsval \<Rightarrow> jsstring option"
  and stringify_elems :: "jsval list \<Rightarrow> jsstring list"
  and stringify_props :: "(jsstring \<times> jsval) list \<Rightarrow> jsstring list" where
  "JSON_stringify JUndefined = None"
| "JSON_stringify JNull = Some (js ''null'')"
| "JSON_stringify (JBool b) = Some (if b then js ''true'' else js ''false'')"
| "JSON_stringify (JNum q) = Some (Number_toString q)"
| "JSON_stringify (JStr s) = Some (QuoteJSONString s)"
| "JSON_stringify (JArr xs) = Some (91 # join_comma (stringify_elems xs) @ [93])"
| "JSON_stringify (JObj ps) = Some (123 # join_comma (stringify_props ps) @ [125])"
| "stringify_elems [] = []"
| "stringify_elems (x # xs) =
     (case JSON_stringify x of None \<Rightarrow> js ''null'' | Some s \<Rightarrow> s) # stringify_elems xs"
| "stringify_props [] = []"
| "stringify_props ((k, v) # ps) =
     (case JSON_stringify v of
        None \<Rightarrow> stringify_props ps
      | Some s \<Rightarrow> (QuoteJSONString k @ 58 # s) # stringify_props ps)"

text \<open>\<open>JSON.stringify\<close> of an object literal, which is always a string.\<close>

definition stringify_object :: "(jsstring \<times> jsval) list \<Rightarrow> jsstring" where
  "stringify_object ps = 123 # join_comma (stringify_props ps) @ [125]"

section \<open>The configuration state service\<close>

record Step1Data =
  systemType :: jsval
  deploymentType :: jsval
  selectedNodes :: number
  nodesPerRack :: number
  totalRacks :: number

record Step2Data =
  powerConfiguration :: jsval
  region :: jsval
  calculatedEfficiency :: number
  estimatedPowerConsumption :: number

record Step3Data =
  storageProtocol :: jsval
  storageVendor :: jsval
  supportOption :: jsval

record ConfigurationData =
  step1 :: "Step1Data option"
  step2 :: "Step2Data option"
  step3 :: "Step3Data option"
  currentStep :: number
  isComplete :: bool
  lastGeneratedHash :: "jsstring option"

text \<open>The step payloads as the objects the step components build in \<open>onNext\<close>.\<close>

definition Step1Data_js :: "Step1Data \<Rightarrow> jsval" where
  "Step1Data_js d = JObj
     [(js ''systemType'', systemType d),
      (js ''deploymentType'', deploymentType d),
      (js ''selectedNodes'', JNum (selectedNodes d)),
      (js ''nodesPerRack'', JNum (nodesPerRack d)),
      (js ''totalRacks'', JNum (totalRacks d))]"

definition Step2Data_js :: "Step2Data \<Rightarrow> jsval" where
  "Step2Data_js d = JObj
     [(js ''powerConfiguration'', powerConfiguration d),
      (js ''region'', region d),
      (js ''calculatedEfficiency'', JNum (calculatedEfficiency d)),
      (js ''estimatedPowerConsumption'', JNum (estimatedPowerConsumption d))]"

definition Step3Data_js :: "Step3Data \<Rightarrow> jsval" where
  "Step3Data_js d = JObj
     [(js ''storageProtocol'', storageProtocol d),
      (js ''storageVendor'', storageVendor d),
      (js ''supportOption'', supportOption d)]"

definition optional_js :: "('a \<Rightarrow> jsval) \<Rightarrow> 'a option \<Rightarrow> jsval" where
  "optional_js f x = (case x of None \<Rightarrow> JUndefined | Some d \<Rightarrow> f d)"

text \<open>
  The configuration object. In the browser the order of its keys follows the history of
  the spreads that built it; the order here is the one of a wizard run through its steps
  in order.
\<close>

definition ConfigurationData_js :: "ConfigurationData \<Rightarrow> (jsstring \<times> jsval) list" where
  "ConfigurationData_js c =
     [(js ''currentStep'', JNum (currentStep c)),
      (js ''isComplete'', JBool (isComplete c)),
      (js ''step1'', optional_js Step1Data_js (step1 c)),
      (js ''lastGeneratedHash'', optional_js JStr (lastGeneratedHash c)),
      (js ''step2'', optional_js Step2Data_js (step2 c)),
      (js ''step3'', optional_js Step3Data_js (step3 c))]"

text \<open>
  The service holds the current configuration in \<open>configurationSubject\<close>; the
  subscribers of the subject read the configuration and do not change it. The browser's
  \<open>localStorage\<close> is a key-value store of strings; it is \<open>None\<close> where the code
  runs outside a browser (\<open>typeof localStorage === 'undefined'\<close>). \<open>setItem\<close> is
  taken to succeed: the store has room.
\<close>

record ConfigurationStateService =
  configurationSubject :: ConfigurationData
  localStorage :: "(jsstring \<rightharpoonup> jsstring) option"

definition initialConfiguration :: ConfigurationData where
  "initialConfiguration =
     \<lparr>step1 = None, step2 = None, step3 = None, currentStep = 1, isComplete = False,
      lastGeneratedHash = None\<rparr>"

definition getCurrentConfiguration :: "ConfigurationStateService \<Rightarrow> ConfigurationData" where
  "getCurrentConfiguration s = configurationSubject s"

definition updateConfiguration ::
  "ConfigurationData \<Rightarrow> ConfigurationStateService \<Rightarrow> ConfigurationStateService" where
  "updateConfiguration config s =
     s\<lparr>configurationSubject := config,
       localStorage :=
         (case localStorage s of
            None \<Rightarrow> None
          | Some store \<Rightarrow>
              Some (store(js ''hpc-configuration'' \<mapsto>
                      stringify_object (ConfigurationData_js config))))\<rparr>"

definition updateStep1 ::
  "Step1Data \<Rightarrow> ConfigurationStateService \<Rightarrow> ConfigurationStateService" where
  "updateStep1 data s =
     (let current = getCurrentConfiguration s;
          updated = current\<lparr>step1 := Some data,
                            currentStep := max (currentStep current) 2,
                            isComplete := False,
                            lastGeneratedHash := None\<rparr>
      in updateConfiguration updated s)"

definition updateStep2 ::
  "Step2Data \<Rightarrow> ConfigurationStateService \<Rightarrow> ConfigurationStateService" where
  "updateStep2 data s =
     (let current = getCurrentConfiguration s;
          updated = current\<lparr>step2 := Some data,
                            currentStep := max (currentStep current) 3,
                            isComplete := False,
                            lastGeneratedHash := None\<rparr>
      in updateConfiguration updated s)"

definition updateStep3 ::
  "Step3Data \<Rightarrow> ConfigurationStateService \<Rightarrow> ConfigurationStateService" where
  "updateStep3 data s =
     (let current = getCurrentConfiguration s;
          updated = current\<lparr>step3 := Some data,
                            currentStep := max (currentStep current) 4,
                            isComplete := False,
                            lastGeneratedHash := None\<rparr>
      in updateConfiguration updated s)"

definition completeConfiguration :: "ConfigurationStateService \<Rightarrow> ConfigurationStateService" where
  "completeConfiguration s =
     (let current = getCurrentConfiguration s;
          updated = current\<lparr>isComplete := True\<rparr>
      in updateConfiguration updated s)"

definition navigateToStep :: "number \<Rightarrow> ConfigurationStateService \<Rightarrow> ConfigurationStateService" where
  "navigateToStep step s =
     (let current = getCurrentConfiguration s
      in if step \<le> currentStep current
         then s\<lparr>configurationSubject := current\<lparr>currentStep := step\<rparr>\<rparr>
         else s)"

definition isStepAccessible :: "number \<Rightarrow> ConfigurationStateService \<Rightarrow> bool" where
  "isStepAccessible step s = (step \<le> currentStep (getCurrentConfiguration s))"

definition resetConfiguration :: "ConfigurationStateService \<Rightarrow> ConfigurationStateService" where
  "resetConfiguration s = updateConfiguration initialConfiguration s"

section \<open>The rolling hash of calculateConfigHash\<close>

text \<open>
  The body of the loop of \<open>calculateConfigHash\<close>:
  \<^verbatim>\<open>hash = ((hash << 5) - hash) + char; hash = hash & hash;\<close>
\<close>

definition hash_step :: "int \<Rightarrow> 16 word \<Rightarrow> int" where
  "hash_step hash c =
     (let char = uint c;
          hash1 = (js_shl hash 5 - hash) + char
      in js_and hash1 hash1)"

definition hash_string :: "jsstring \<Rightarrow> int" where
  "hash_string configString = foldl hash_step 0 configString"

text \<open>
  The hash as the specification words it: \<open>h = 0; h = (h * 31 + code c)\<close> reduced
  modulo \<open>2^32\<close> into the signed 32-bit range.
\<close>

definition wrap32 :: "int \<Rightarrow> int" where
  "wrap32 x = (x + 2 ^ 31) mod 2 ^ 32 - 2 ^ 31"

definition spec_hash_step :: "int \<Rightarrow> 16 word \<Rightarrow> int" where
  "spec_hash_step h c = wrap32 (h * 31 + uint c)"

definition spec_hash :: "jsstring \<Rightarrow> int" where
  "spec_hash s = foldl spec_hash_step 0 s"


subsection \<open>Change detection\<close>

definition configString :: "ConfigurationData \<Rightarrow> jsstring" where
  "configString config = stringify_object
     [(js ''step1'', optional_js Step1Data_js (step1 config)),
      (js ''step2'', optional_js Step2Data_js (step2 config)),
      (js ''step3'', optional_js Step3Data_js (step3 config))]"

definition calculateConfigHash :: "ConfigurationStateService \<Rightarrow> jsstring" where
  "calculateConfigHash s =
     (let config = getCurrentConfiguration s;
          hash = hash_string (configString config)
      in Number_toString (of_int hash))"

definition hasConfigurationChanged :: "ConfigurationStateService \<Rightarrow> bool" where
  "hasConfigurationChanged s =
     (let currentConfig = getCurrentConfiguration s
      in case lastGeneratedHash currentConfig of
           None \<Rightarrow> True
         | Some h \<Rightarrow>
             if h = [] then True
             else (let currentHash = calculateConfigHash s in h \<noteq> currentHash))"

definition markAsGenerated :: "ConfigurationStateService \<Rightarrow> ConfigurationStateService" where
  "markAsGenerated s =
     (let currentConfig = getCurrentConfiguration s;
          newHash = calculateConfigHash s
      in updateConfiguration (currentConfig\<lparr>lastGeneratedHash := Some newHash\<rparr>) s)"


subsection \<open>The exported configuration\<close>

record SystemSection =
  system_type :: jsval
  system_deployment :: jsval
  system_nodes :: number
  system_nodesPerRack :: number
  system_totalRacks :: number

record PowerSection =
  power_configuration :: jsval
  power_region :: jsval
  power_efficiency :: number
  power_estimatedConsumption :: number

record StorageSection =
  storage_protocol :: jsval
  storage_vendor :: jsval
  storage_support :: jsval

record PricingData =
  total_price_usd :: number
  currency :: jsstring
  nodes_count :: number
  calculated_at :: jsstring

record FinalConfiguration =
  system_section :: SystemSection
  power_section :: PowerSection
  storage_section :: StorageSection
  timestamp :: jsstring
  version :: jsstring
  pricing :: "PricingData option"

text \<open>
  \<open>config.stepN?.field?.name || ''\<close>, where \<open>v\<close> is \<open>config.stepN?.field\<close>:
  undefined when the step is absent, the field of the step otherwise.
\<close>

definition name_or_empty :: "jsval \<Rightarrow> error + jsval" where
  "name_or_empty v = and_then (opt_member v (js ''name'')) (\<lambda>n. Inr (js_or n (JStr [])))"

definition step_field :: "('a \<Rightarrow> jsval) \<Rightarrow> 'a option \<Rightarrow> jsval" where
  "step_field f st = (case st of None \<Rightarrow> JUndefined | Some d \<Rightarrow> f d)"

text \<open>\<open>config.stepN?.field || 0\<close> for a field that holds a number.\<close>

definition step_number :: "('a \<Rightarrow> number) \<Rightarrow> 'a option \<Rightarrow> number" where
  "step_number f st = (case st of None \<Rightarrow> 0 | Some d \<Rightarrow> num_or (f d) 0)"

text \<open>
  \<open>getFinalConfiguration\<close>. The clock is read once, by
  \<open>new Date().toISOString()\<close>; its reading is the parameter \<open>now\<close>. Every property
  access that can raise is a branch here.
\<close>

definition getFinalConfiguration ::
  "jsstring \<Rightarrow> ConfigurationStateService \<Rightarrow> error + FinalConfiguration" where
  "getFinalConfiguration now s =
     (let config = getCurrentConfiguration s
      in and_then (name_or_empty (step_field systemType (step1 config))) (\<lambda>ty.
         and_then (name_or_empty (step_field deploymentType (step1 config))) (\<lambda>dep.
         and_then (name_or_empty (step_field powerConfiguration (step2 config))) (\<lambda>pc.
         and_then (name_or_empty (step_field region (step2 config))) (\<lambda>reg.
         and_then (name_or_empty (step_field storageProtocol (step3 config))) (\<lambda>proto.
         and_then (name_or_empty (step_field storageVendor (step3 config))) (\<lambda>vendor.
         and_then (name_or_empty (step_field supportOption (step3 config))) (\<lambda>support.
         Inr \<lparr>system_section =
                \<lparr>system_type = ty,
                 system_deployment = dep,
                 system_nodes = step_number selectedNodes (step1 config),
                 system_nodesPerRack = step_number nodesPerRack (step1 config),
                 system_totalRacks = step_number totalRacks (step1 config)\<rparr>,
              power_section =
                \<lparr>power_configuration = pc,
                 power_region = reg,
                 power_efficiency = step_number calculatedEfficiency (step2 config),
                 power_estimatedConsumption = step_number estimatedPowerConsumption (step2 config)\<rparr>,
              storage_section =
                \<lparr>storage_protocol = proto,
                 storage_vendor = vendor,
                 storage_support = support\<rparr>,
              timestamp = now,
              version = js ''1.0'',
              pricing = None\<rparr>))))))))"

text \<open>
  What the projection is to export for one option, in the words of the specification:
  the name of the selected option, and the empty string when the option or its name is
  missing (absent, null or empty).
\<close>

definition selected_name :: "jsval \<Rightarrow> jsval" where
  "selected_name v =
     (case v of
        JObj ps \<Rightarrow>
          (case map_of ps (js ''name'') of
             None \<Rightarrow> JStr []
           | Some n \<Rightarrow> if truthy n then n else JStr [])
      | _ \<Rightarrow> JStr [])"

subsection \<open>Operations of the wizard as data\<close>

datatype operation =
    UpdateStep1 Step1Data
  | UpdateStep2 Step2Data
  | UpdateStep3 Step3Data
  | NavigateToStep number
  | CompleteConfiguration
  | MarkAsGenerated
  | ResetConfiguration

fun perform :: "operation \<Rightarrow> ConfigurationStateService \<Rightarrow> ConfigurationStateService" where
  "perform (UpdateStep1 d) s = updateStep1 d s"
| "perform (UpdateStep2 d) s = updateStep2 d s"
| "perform (UpdateStep3 d) s = updateStep3 d s"
| "perform (NavigateToStep step) s = navigateToStep step s"
| "perform CompleteConfiguration s = completeConfiguration s"
| "perform MarkAsGenerated s = markAsGenerated s"
| "perform ResetConfiguration s = resetConfiguration s"

fun perform_all :: "operation list \<Rightarrow> ConfigurationStateService \<Rightarrow> ConfigurationStateService" where
  "perform_all [] s = s"
| "perform_all (op # ops) s = perform_all ops (perform op s)"

fun keeps_position :: "operation \<Rightarrow> bool" where
  "keeps_position (NavigateToStep step) = False"
| "keeps_position ResetConfiguration = False"
| "keeps_position op = True"

text \<open>\<open>localStorage.getItem('hpc-configuration')\<close>, as the constructor reads it.\<close>

definition savedConfiguration :: "ConfigurationStateService \<Rightarrow> jsstring option" where
  "savedConfiguration s =
     (case localStorage s of None \<Rightarrow> None | Some store \<Rightarrow> store (js ''hpc-configuration''))"

section \<open>Step 1: total racks\<close>

definition Math_ceil :: "number \<Rightarrow> number" where
  "Math_ceil x = of_int \<lceil>x\<rceil>"

text \<open>
  \<open>calculateTotalRacks\<close> of the step 1 component. Its two arguments are the fields
  \<open>this.selectedNodes\<close> and \<open>this.selectedNodesPerRack\<close>, which are a number or null.
\<close>

definition calculateTotalRacks :: "number option \<Rightarrow> number option \<Rightarrow> number" where
  "calculateTotalRacks selectedNodes' selectedNodesPerRack =
     (case selectedNodes' of
        None \<Rightarrow> 0
      | Some n \<Rightarrow>
          (case selectedNodesPerRack of
             None \<Rightarrow> 0
           | Some d \<Rightarrow> if n \<noteq> 0 \<and> d \<noteq> 0 then Math_ceil (js_div n d) else 0))"

section \<open>Step 2: power consumption\<close>

record PowerConfiguration =
  pc_id :: jsstring
  pc_name :: jsstring
  efficiency :: number

record Region =
  region_id :: jsstring
  region_name :: jsstring
  powerMultiplier :: number

record BaseConsumption =
  minicluster :: "jsstring \<rightharpoonup> number"
  supercluster :: "jsstring \<rightharpoonup> number"

record PowerCalculation =
  baseConsumption :: BaseConsumption
  efficiencyMultipliers :: "jsstring \<rightharpoonup> number"

record Step2Config =
  powerConfigurations :: "PowerConfiguration list"
  regions :: "Region list"
  powerCalculation :: PowerCalculation

record Step2PowerConfigComponent =
  config :: "Step2Config option"
  selectedPowerConfiguration :: "PowerConfiguration option"
  selectedRegion :: "Region option"
  showSummary :: bool
  calculatedEfficiency' :: number
  estimatedPowerConsumption' :: number

text \<open>\<open>String(v)\<close>, which turns a value used as a property key into the key.\<close>

fun ToString :: "jsval \<Rightarrow> jsstring" and ToString_elems :: "jsval list \<Rightarrow> jsstring list" where
  "ToString JUndefined = js ''undefined''"
| "ToString JNull = js ''null''"
| "ToString (JBool b) = (if b then js ''true'' else js ''false'')"
| "ToString (JNum q) = Number_toString q"
| "ToString (JStr s) = s"
| "ToString (JArr xs) = join_comma (ToString_elems xs)"
| "ToString (JObj ps) = js ''[object Object]''"
| "ToString_elems [] = []"
| "ToString_elems (x # xs) =
     (if x = JUndefined \<or> x = JNull then [] else ToString x) # ToString_elems xs"

text \<open>
  \<open>baseConsumption[deploymentType]\<close>: the table of the deployment type, undefined
  (\<open>None\<close>) for a key that is neither \<open>minicluster\<close> nor \<open>supercluster\<close>.
\<close>

definition baseConsumption_at :: "BaseConsumption \<Rightarrow> jsstring \<Rightarrow> (jsstring \<rightharpoonup> number) option" where
  "baseConsumption_at b k =
     (if k = js ''minicluster'' then Some (minicluster b)
      else if k = js ''supercluster'' then Some (supercluster b)
      else None)"

definition Math_round :: "number \<Rightarrow> number" where
  "Math_round x = of_int \<lfloor>x + 1 / 2\<rfloor>"

text \<open>\<open>baseConsumption[nodeCount] || 1000\<close> and
  \<open>efficiencyMultipliers[id] || 1.0\<close>: the entry, or the default when the entry is
  missing or zero.\<close>

definition entry_or :: "(jsstring \<rightharpoonup> number) \<Rightarrow> jsstring \<Rightarrow> number \<Rightarrow> number" where
  "entry_or table k dflt = (case table k of None \<Rightarrow> dflt | Some b \<Rightarrow> num_or b dflt)"

text \<open>The part of \<open>calculatePowerConsumption\<close> after its guards.\<close>

definition powerConsumption_body ::
  "PowerConfiguration \<Rightarrow> Region \<Rightarrow> Step2Config \<Rightarrow> Step1Data \<Rightarrow> Step2PowerConfigComponent
     \<Rightarrow> error + Step2PowerConfigComponent" where
  "powerConsumption_body pc reg cfg step1Data this =
     and_then (get_member (deploymentType step1Data) (js ''id'')) (\<lambda>deploymentType'.
       (let nodeCount = Number_toString (selectedNodes step1Data)
        in and_then
             (case baseConsumption_at (baseConsumption (powerCalculation cfg)) (ToString deploymentType') of
                None \<Rightarrow> Inl TypeError
              | Some table \<Rightarrow> Inr (entry_or table nodeCount 1000))
             (\<lambda>basePower.
                (let efficiencyMultiplier = entry_or (efficiencyMultipliers (powerCalculation cfg)) (pc_id pc) 1;
                     regionalMultiplier = powerMultiplier reg
                 in Inr (this\<lparr>calculatedEfficiency' := efficiency pc,
                               estimatedPowerConsumption' :=
                                 Math_round (basePower * efficiencyMultiplier * regionalMultiplier * 10) / 10\<rparr>)))))"

definition calculatePowerConsumption ::
  "ConfigurationStateService \<Rightarrow> Step2PowerConfigComponent \<Rightarrow> error + Step2PowerConfigComponent" where
  "calculatePowerConsumption configService this =
     (case (selectedPowerConfiguration this, selectedRegion this, config this) of
        (Some pc, Some reg, Some cfg) \<Rightarrow>
          (case step1 (getCurrentConfiguration configService) of
             None \<Rightarrow> Inr this
           | Some step1Data \<Rightarrow> powerConsumption_body pc reg cfg step1Data this)
      | _ \<Rightarrow> Inr this)"

section \<open>A run of the wizard\<close>

text \<open>The selections of the test run of the README, shortened to the properties read.\<close>

definition readme_step1 :: Step1Data where
  "readme_step1 =
     \<lparr>systemType = JObj [(js ''id'', JStr (js ''datacore-x300'')), (js ''name'', JStr (js ''DataCore X300''))],
      deploymentType = JObj [(js ''id'', JStr (js ''minicluster'')), (js ''name'', JStr (js ''MiniCluster''))],
      selectedNodes = 4, nodesPerRack = 4, totalRacks = 1\<rparr>"

definition readme_step2 :: Step2Data where
  "readme_step2 =
     \<lparr>powerConfiguration = JObj [(js ''id'', JStr (js ''full-dc'')), (js ''name'', JStr (js ''Full DC Power''))],
      region = JObj [(js ''id'', JStr (js ''us'')), (js ''name'', JStr (js ''United States''))],
      calculatedEfficiency = 19 / 20, estimatedPowerConsumption = 990\<rparr>"

definition readme_step3 :: Step3Data where
  "readme_step3 =
     \<lparr>storageProtocol = JObj [(js ''name'', JStr (js ''High-Speed Interconnect''))],
      storageVendor = JObj [(js ''name'', JStr (js ''WekaIO''))],
      supportOption = JObj [(js ''name'', JStr (js ''5 Years''))]\<rparr>"

definition fresh_service :: ConfigurationStateService where
  "fresh_service = \<lparr>configurationSubject = initialConfiguration, localStorage = Some Map.empty\<rparr>"

text \<open>The wizard after the three steps of that run have been saved.\<close>

definition readme_run :: ConfigurationStateService where
  "readme_run =
     updateStep3 readme_step3 (updateStep2 readme_step2 (updateStep1 readme_step1 fresh_service))"

text \<open>A deployment type that the table of base consumptions does not know.\<close>

definition edge_step1 :: Step1Data where
  "edge_step1 =
     \<lparr>systemType = JObj [(js ''id'', JStr (js ''datacore-x300'')), (js ''name'', JStr (js ''DataCore X300''))],
      deploymentType = JObj [(js ''id'', JStr (js ''edgecluster'')), (js ''name'', JStr (js ''EdgeCluster''))],
      selectedNodes = 4, nodesPerRack = 4, totalRacks = 1\<rparr>"

definition sample_step2_config :: Step2Config where
  "sample_step2_config =
     \<lparr>powerConfigurations = [\<lparr>pc_id = js ''full-dc'', pc_name = js ''Full DC Power'', efficiency = 19 / 20\<rparr>],
      regions = [\<lparr>region_id = js ''us'', region_name = js ''United States'', powerMultiplier = 11 / 10\<rparr>],
      powerCalculation =
        \<lparr>baseConsumption =
           \<lparr>minicluster = [js ''8'' \<mapsto> 1800], supercluster = [js ''64'' \<mapsto> 12000]\<rparr>,
         efficiencyMultipliers = [js ''full-dc'' \<mapsto> 9 / 10]\<rparr>\<rparr>"

definition sample_step2_component :: Step2PowerConfigComponent where
  "sample_step2_component =
     \<lparr>config = Some sample_step2_config,
      selectedPowerConfiguration =
        Some \<lparr>pc_id = js ''full-dc'', pc_name = js ''Full DC Power'', efficiency = 19 / 20\<rparr>,
      selectedRegion =
        Some \<lparr>region_id = js ''us'', region_name = js ''United States'', powerMultiplier = 11 / 10\<rparr>,
      showSummary = True,
      calculatedEfficiency' = 0,
      estimatedPowerConsumption' = 0\<rparr>"

section \<open>The hash is the specified rolling hash\<close>

lemma JSON_stringify_object: "JSON_stringify (JObj ps) = Some (stringify_object ps)"
  by (simp add: stringify_object_def)

lemma sint32_wrap32: "sint (word_of_int x :: 32 word) = wrap32 x"
  by (simp add: wrap32_def int_word_sint)

lemma hash_step_spec: "hash_step h c = spec_hash_step h c"
proof -
  have "(word_of_int (sint (push_bit 5 (word_of_int h :: 32 word)) - h + uint c) :: 32 word)
        = word_of_int (h * 31 + uint c)"
    by (simp add: push_bit_eq_mult algebra_simps)
  then show ?thesis
    by (simp add: hash_step_def spec_hash_step_def js_shl_def js_and_def Let_def
        sint32_wrap32 [symmetric] mult.commute)
qed

lemma hash_string_spec: "hash_string s = spec_hash s"
  by (simp add: hash_string_def spec_hash_def hash_step_spec [abs_def])


lemma ToInt32_wrap32: "ToInt32 x = wrap32 x"
  by (simp add: ToInt32_def sint32_wrap32)

text \<open>
  The round is computed in doubles. From a hash in the signed 32-bit range, which every
  round gives back, the value before \<open>h & h\<close> stays far below \<open>2^53\<close>, where
  double addition and subtraction of integers are exact.
\<close>

lemma hash_step_exact:
  assumes "- (2 ^ 31) \<le> h" and "h < 2 ^ 31"
  shows "\<bar>js_shl h 5 - h + uint (c :: 16 word)\<bar> < 2 ^ 53"
proof -
  have lo: "- (2 ^ 31) \<le> js_shl h 5" and hi: "js_shl h 5 < 2 ^ 31"
    using sint_ge [of "push_bit 5 (word_of_int h :: 32 word)"]
      sint_lt [of "push_bit 5 (word_of_int h :: 32 word)"]
    by (simp_all add: js_shl_def)
  define u where "u = uint c"
  have u: "0 \<le> u" "u < 2 ^ 16"
    using uint_bounded [of c] by (simp_all add: u_def)
  from assms lo hi u have "\<bar>js_shl h 5 - h + u\<bar> < 2 ^ 53"
    by (simp add: abs_less_iff)
  then show ?thesis by (simp add: u_def)
qed

lemma wrap32_range: "- (2 ^ 31) \<le> wrap32 x \<and> wrap32 x < 2 ^ 31"
  by (simp add: wrap32_def)

lemma spec_hash_range: "- (2 ^ 31) \<le> spec_hash str \<and> spec_hash str < 2 ^ 31"
proof (induction str rule: rev_induct)
  case Nil
  show ?case by (simp add: spec_hash_def)
next
  case (snoc c cs)
  show ?case
    using wrap32_range [of "foldl spec_hash_step 0 cs * 31 + uint c"]
    by (simp add: spec_hash_def spec_hash_step_def)
qed

lemma Number_toString_of_int: "Number_toString (of_int i) = int_toString i"
  by (simp add: Number_toString_def)

lemma nat_digits_nonempty: "nat_digits n \<noteq> []"
  by (subst nat_digits.simps) simp

lemma int_toString_nonempty: "int_toString i \<noteq> []"
  by (simp add: int_toString_def nat_digits_nonempty)

lemma calculateConfigHash_nonempty: "calculateConfigHash s \<noteq> []"
  by (simp add: calculateConfigHash_def Let_def Number_toString_of_int int_toString_nonempty)

lemma calculateConfigHash_steps:
  "step1 (getCurrentConfiguration s) = step1 (getCurrentConfiguration t) \<Longrightarrow>
   step2 (getCurrentConfiguration s) = step2 (getCurrentConfiguration t) \<Longrightarrow>
   step3 (getCurrentConfiguration s) = step3 (getCurrentConfiguration t) \<Longrightarrow>
   calculateConfigHash s = calculateConfigHash t"
  by (simp add: calculateConfigHash_def configString_def Let_def)

lemma Number_toString_samples:
  "Number_toString 1 = [49]" "Number_toString 4 = [52]" "Number_toString 990 = [57, 57, 48]"
  "Number_toString (19 / 20) = [48, 46, 57, 53]"
  by code_simp+

lemma readme_run_configuration:
  "getCurrentConfiguration readme_run
     = \<lparr>step1 = Some readme_step1, step2 = Some readme_step2, step3 = Some readme_step3,
        currentStep = 4, isComplete = False, lastGeneratedHash = None\<rparr>"
  by (simp add: readme_run_def updateStep1_def updateStep2_def updateStep3_def Let_def
      initialConfiguration_def fresh_service_def getCurrentConfiguration_def
      updateConfiguration_def)

text \<open>The serialized steps of the run, and their hash, which has wrapped around.\<close>

lemma readme_run_configString:
  \<open>configString (getCurrentConfiguration readme_run) =
    js ''{"step1":{"systemType":{"id":"datacore-x300","name":"DataCore X300"},"deploymentType":{"id":"minicluster","name":"MiniCluster"},"selectedNodes":4,"nodesPerRack":4,"totalRacks":1},"step2":{"powerConfiguration":{"id":"full-dc","name":"Full DC Power"},"region":{"id":"us","name":"United States"},"calculatedEfficiency":0.95,"estimatedPowerConsumption":990},"step3":{"storageProtocol":{"name":"High-Speed Interconnect"},"storageVendor":{"name":"WekaIO"},"supportOption":{"name":"5 Years"}}}''\<close>
  unfolding readme_run_configuration
  apply (simp add: configString_def optional_js_def Step1Data_js_def Step2Data_js_def
      Step3Data_js_def readme_step1_def readme_step2_def readme_step3_def stringify_object_def
      Number_toString_samples)
  apply (simp add: js_def QuoteJSONString_def quote_unit_def is_surrogate_def)
  done

lemma readme_run_spec_hash:
  "spec_hash (configString (getCurrentConfiguration readme_run)) = - 250000448"
  unfolding readme_run_configString
  by (simp add: js_def spec_hash_def spec_hash_step_def wrap32_def)

lemma Number_toString_readme_hash: "Number_toString (- 250000448) = js ''-250000448''"
  by (simp add: Number_toString_def int_toString_def nat_digits.simps digit_def js_def)

text \<open>
  C3: \<open>calculateConfigHash\<close> is the decimal string of the rolling hash of the
  configuration string; the configuration string is \<open>JSON.stringify\<close> of the object
  with the keys \<open>step1\<close>, \<open>step2\<close>, \<open>step3\<close> in this order, each step an
  object of its fields in the order of its interface, or undefined when the step is
  absent; the rolling hash starts at 0 and maps \<open>h\<close> and a code unit \<open>c\<close> to
  \<open>h * 31 + c\<close> reduced modulo \<open>2^32\<close> into the signed 32-bit range; one round
  of the code, \<open>((h << 5) - h) + c\<close> followed by \<open>h & h\<close>, is that step; the hash
  stays in the signed 32-bit range; and two states whose configuration strings are equal
  have equal hashes.
\<close>

theorem calculateConfigHash_rolling_hash:
  "calculateConfigHash s =
     Number_toString (of_int (spec_hash (configString (getCurrentConfiguration s))))
   \<and> JSON_stringify (JObj
        [(js ''step1'',
          (case step1 (getCurrentConfiguration s) of
             None \<Rightarrow> JUndefined
           | Some d \<Rightarrow> JObj
               [(js ''systemType'', systemType d),
                (js ''deploymentType'', deploymentType d),
                (js ''selectedNodes'', JNum (selectedNodes d)),
                (js ''nodesPerRack'', JNum (nodesPerRack d)),
                (js ''totalRacks'', JNum (totalRacks d))])),
         (js ''step2'',
          (case step2 (getCurrentConfiguration s) of
             None \<Rightarrow> JUndefined
           | Some d \<Rightarrow> JObj
               [(js ''powerConfiguration'', powerConfiguration d),
                (js ''region'', region d),
                (js ''calculatedEfficiency'', JNum (calculatedEfficiency d)),
                (js ''estimatedPowerConsumption'', JNum (estimatedPowerConsumption d))])),
         (js ''step3'',
          (case step3 (getCurrentConfiguration s) of
             None \<Rightarrow> JUndefined
           | Some d \<Rightarrow> JObj
               [(js ''storageProtocol'', storageProtocol d),
                (js ''storageVendor'', storageVendor d),
                (js ''supportOption'', supportOption d)]))])
       = Some (configString (getCurrentConfiguration s))
   \<and> hash_step h c = wrap32 (h * 31 + uint c)
   \<and> - (2 ^ 31) \<le> hash_string str \<and> hash_string str < 2 ^ 31
   \<and> (configString (getCurrentConfiguration s) = configString (getCurrentConfiguration t)
        \<longrightarrow> calculateConfigHash s = calculateConfigHash t)"
proof -
  have hash: "calculateConfigHash s =
     Number_toString (of_int (spec_hash (configString (getCurrentConfiguration s))))"
    by (simp add: calculateConfigHash_def Let_def hash_string_spec)
  have string: "JSON_stringify (JObj
        [(js ''step1'',
          (case step1 (getCurrentConfiguration s) of
             None \<Rightarrow> JUndefined
           | Some d \<Rightarrow> JObj
               [(js ''systemType'', systemType d),
                (js ''deploymentType'', deploymentType d),
                (js ''selectedNodes'', JNum (selectedNodes d)),
                (js ''nodesPerRack'', JNum (nodesPerRack d)),
                (js ''totalRacks'', JNum (totalRacks d))])),
         (js ''step2'',
          (case step2 (getCurrentConfiguration s) of
             None \<Rightarrow> JUndefined
           | Some d \<Rightarrow> JObj
               [(js ''powerConfiguration'', powerConfiguration d),
                (js ''region'', region d),
                (js ''calculatedEfficiency'', JNum (calculatedEfficiency d)),
                (js ''estimatedPowerConsumption'', JNum (estimatedPowerConsumption d))])),
         (js ''step3'',
          (case step3 (getCurrentConfiguration s) of
             None \<Rightarrow> JUndefined
           | Some d \<Rightarrow> JObj
               [(js ''storageProtocol'', storageProtocol d),
                (js ''storageVendor'', storageVendor d),
                (js ''supportOption'', supportOption d)]))])
       = Some (configString (getCurrentConfiguration s))"
    unfolding JSON_stringify_object configString_def optional_js_def Step1Data_js_def
      Step2Data_js_def Step3Data_js_def ..
  have step: "hash_step h c = wrap32 (h * 31 + uint c)"
    by (simp add: hash_step_spec spec_hash_step_def)
  have range: "- (2 ^ 31) \<le> hash_string str \<and> hash_string str < 2 ^ 31"
    using spec_hash_range [of str] by (simp add: hash_string_spec)
  have equal: "calculateConfigHash s = calculateConfigHash t"
    if "configString (getCurrentConfiguration s) = configString (getCurrentConfiguration t)"
    using that by (simp add: calculateConfigHash_def Let_def)
  from hash string step range equal show ?thesis by blast
qed

theorem calculateConfigHash_rolling_hash_witness:
  \<open>currentStep (getCurrentConfiguration readme_run) = 4
   \<and> currentStep (getCurrentConfiguration (navigateToStep 2 readme_run)) = 2
   \<and> configString (getCurrentConfiguration readme_run)
       = configString (getCurrentConfiguration (navigateToStep 2 readme_run))
   \<and> configString (getCurrentConfiguration readme_run) =
       js ''{"step1":{"systemType":{"id":"datacore-x300","name":"DataCore X300"},"deploymentType":{"id":"minicluster","name":"MiniCluster"},"selectedNodes":4,"nodesPerRack":4,"totalRacks":1},"step2":{"powerConfiguration":{"id":"full-dc","name":"Full DC Power"},"region":{"id":"us","name":"United States"},"calculatedEfficiency":0.95,"estimatedPowerConsumption":990},"step3":{"storageProtocol":{"name":"High-Speed Interconnect"},"storageVendor":{"name":"WekaIO"},"supportOption":{"name":"5 Years"}}}''
   \<and> calculateConfigHash readme_run = js ''-250000448''
   \<and> calculateConfigHash (navigateToStep 2 readme_run) = js ''-250000448''\<close>
proof -
  have cur: "currentStep (getCurrentConfiguration readme_run) = 4"
    by (simp add: readme_run_configuration)
  have nav: "getCurrentConfiguration (navigateToStep 2 readme_run)
      = (getCurrentConfiguration readme_run)\<lparr>currentStep := 2\<rparr>"
    using cur by (simp add: navigateToStep_def Let_def getCurrentConfiguration_def)
  have cur': "currentStep (getCurrentConfiguration (navigateToStep 2 readme_run)) = 2"
    unfolding nav by simp
  have same: "configString (getCurrentConfiguration readme_run)
      = configString (getCurrentConfiguration (navigateToStep 2 readme_run))"
    unfolding nav by (simp add: configString_def)
  note hash = calculateConfigHash_rolling_hash
      [of readme_run 0 123 "[]" "navigateToStep 2 readme_run"]
  from hash have "calculateConfigHash readme_run =
      Number_toString (of_int (spec_hash (configString (getCurrentConfiguration readme_run))))"
    by (rule conjunct1)
  then have h1: "calculateConfigHash readme_run = js ''-250000448''"
    unfolding readme_run_spec_hash using Number_toString_readme_hash by simp
  from hash have "configString (getCurrentConfiguration readme_run)
        = configString (getCurrentConfiguration (navigateToStep 2 readme_run))
      \<longrightarrow> calculateConfigHash readme_run = calculateConfigHash (navigateToStep 2 readme_run)"
    by (elim conjE)
  then have h2: "calculateConfigHash readme_run
      = calculateConfigHash (navigateToStep 2 readme_run)"
    using same by (rule mp)
  have h3: "calculateConfigHash (navigateToStep 2 readme_run) = js ''-250000448''"
    unfolding h2 [symmetric] by (rule h1)
  show ?thesis
    by (intro conjI cur cur' same readme_run_configString h1 h3)
qed

section \<open>Updating a step\<close>

lemma getCurrentConfiguration_updateConfiguration [simp]:
  "getCurrentConfiguration (updateConfiguration c s) = c"
  by (simp add: getCurrentConfiguration_def updateConfiguration_def)

text \<open>
  C1: from every state and for every payload, \<open>updateStep1\<close>, \<open>updateStep2\<close> and
  \<open>updateStep3\<close> replace the payload of their step, set \<open>currentStep\<close> to the
  maximum of its old value and the number of the next step, set \<open>isComplete\<close> to false
  and clear \<open>lastGeneratedHash\<close>, leaving the other payloads as they were; and
  \<open>hasConfigurationChanged\<close> is true right after.
\<close>

theorem updateStep_effect:
  "(getCurrentConfiguration (updateStep1 d1 s) =
      (getCurrentConfiguration s)\<lparr>step1 := Some d1,
         currentStep := max (currentStep (getCurrentConfiguration s)) 2,
         isComplete := False, lastGeneratedHash := None\<rparr>
    \<and> hasConfigurationChanged (updateStep1 d1 s))
   \<and> (getCurrentConfiguration (updateStep2 d2 s) =
      (getCurrentConfiguration s)\<lparr>step2 := Some d2,
         currentStep := max (currentStep (getCurrentConfiguration s)) 3,
         isComplete := False, lastGeneratedHash := None\<rparr>
    \<and> hasConfigurationChanged (updateStep2 d2 s))
   \<and> (getCurrentConfiguration (updateStep3 d3 s) =
      (getCurrentConfiguration s)\<lparr>step3 := Some d3,
         currentStep := max (currentStep (getCurrentConfiguration s)) 4,
         isComplete := False, lastGeneratedHash := None\<rparr>
    \<and> hasConfigurationChanged (updateStep3 d3 s))"
  by (simp add: updateStep1_def updateStep2_def updateStep3_def Let_def hasConfigurationChanged_def)

section \<open>Change detection\<close>

text \<open>
  C2: from every state, \<open>markAsGenerated\<close> stores the hash of the current steps, and
  \<open>hasConfigurationChanged\<close> called right after it returns false.
\<close>

theorem markAsGenerated_then_unchanged:
  "lastGeneratedHash (getCurrentConfiguration (markAsGenerated s)) = Some (calculateConfigHash s)
   \<and> hasConfigurationChanged (markAsGenerated s) = False"
proof -
  have same: "calculateConfigHash (markAsGenerated s) = calculateConfigHash s"
    by (rule calculateConfigHash_steps) (simp_all add: markAsGenerated_def Let_def)
  show ?thesis
    using same calculateConfigHash_nonempty [of s]
    by (simp add: hasConfigurationChanged_def markAsGenerated_def Let_def)
qed

text \<open>
  C10: two states with the same three payloads and the same stored hash give the same
  answer to \<open>hasConfigurationChanged\<close>, whatever their \<open>currentStep\<close> and
  \<open>isComplete\<close>; so \<open>navigateToStep\<close> and \<open>completeConfiguration\<close> do not change
  the answer.
\<close>

theorem change_detection_ignores_navigation:
  "(step1 (getCurrentConfiguration s) = step1 (getCurrentConfiguration t)
     \<and> step2 (getCurrentConfiguration s) = step2 (getCurrentConfiguration t)
     \<and> step3 (getCurrentConfiguration s) = step3 (getCurrentConfiguration t)
     \<and> lastGeneratedHash (getCurrentConfiguration s) = lastGeneratedHash (getCurrentConfiguration t)
     \<longrightarrow> hasConfigurationChanged s = hasConfigurationChanged t)
   \<and> hasConfigurationChanged (navigateToStep step s) = hasConfigurationChanged s
   \<and> hasConfigurationChanged (completeConfiguration s) = hasConfigurationChanged s"
proof -
  have general: "hasConfigurationChanged a = hasConfigurationChanged b"
    if "step1 (getCurrentConfiguration a) = step1 (getCurrentConfiguration b)"
      and "step2 (getCurrentConfiguration a) = step2 (getCurrentConfiguration b)"
      and "step3 (getCurrentConfiguration a) = step3 (getCurrentConfiguration b)"
      and "lastGeneratedHash (getCurrentConfiguration a) = lastGeneratedHash (getCurrentConfiguration b)"
    for a b
    using that calculateConfigHash_steps [of a b]
    by (simp add: hasConfigurationChanged_def Let_def split: option.splits)
  have nav: "hasConfigurationChanged (navigateToStep step s) = hasConfigurationChanged s"
    by (rule general) (simp_all add: navigateToStep_def getCurrentConfiguration_def Let_def)
  have compl: "hasConfigurationChanged (completeConfiguration s) = hasConfigurationChanged s"
    by (rule general) (simp_all add: completeConfiguration_def Let_def)
  from general [of s t] nav compl show ?thesis by blast
qed

theorem change_detection_ignores_navigation_witness:
  "step1 (getCurrentConfiguration (updateStep1 readme_step1 fresh_service))
     = step1 (getCurrentConfiguration (navigateToStep 1 (updateStep1 readme_step1 fresh_service)))
   \<and> step2 (getCurrentConfiguration (updateStep1 readme_step1 fresh_service))
     = step2 (getCurrentConfiguration (navigateToStep 1 (updateStep1 readme_step1 fresh_service)))
   \<and> step3 (getCurrentConfiguration (updateStep1 readme_step1 fresh_service))
     = step3 (getCurrentConfiguration (navigateToStep 1 (updateStep1 readme_step1 fresh_service)))
   \<and> lastGeneratedHash (getCurrentConfiguration (updateStep1 readme_step1 fresh_service))
     = lastGeneratedHash (getCurrentConfiguration (navigateToStep 1 (updateStep1 readme_step1 fresh_service)))
   \<and> currentStep (getCurrentConfiguration (updateStep1 readme_step1 fresh_service)) = 2
   \<and> currentStep (getCurrentConfiguration (navigateToStep 1 (updateStep1 readme_step1 fresh_service))) = 1
   \<and> hasConfigurationChanged (updateStep1 readme_step1 fresh_service)
     = hasConfigurationChanged (navigateToStep 1 (updateStep1 readme_step1 fresh_service))"
proof -
  let ?s = "updateStep1 readme_step1 fresh_service"
  have cur: "currentStep (getCurrentConfiguration ?s) = 2"
    by (simp add: updateStep1_def Let_def getCurrentConfiguration_def
      updateConfiguration_def fresh_service_def initialConfiguration_def)
  have nav: "getCurrentConfiguration (navigateToStep 1 ?s)
      = (getCurrentConfiguration ?s)\<lparr>currentStep := 1\<rparr>"
    using cur by (simp add: navigateToStep_def Let_def getCurrentConfiguration_def)
  have same: "step1 (getCurrentConfiguration ?s) = step1 (getCurrentConfiguration (navigateToStep 1 ?s))
     \<and> step2 (getCurrentConfiguration ?s) = step2 (getCurrentConfiguration (navigateToStep 1 ?s))
     \<and> step3 (getCurrentConfiguration ?s) = step3 (getCurrentConfiguration (navigateToStep 1 ?s))
     \<and> lastGeneratedHash (getCurrentConfiguration ?s)
         = lastGeneratedHash (getCurrentConfiguration (navigateToStep 1 ?s))"
    unfolding nav by simp
  have cur': "currentStep (getCurrentConfiguration (navigateToStep 1 ?s)) = 1"
    unfolding nav by simp
  from same cur cur' change_detection_ignores_navigation [of ?s "navigateToStep 1 ?s" 1]
  show ?thesis by blast
qed

section \<open>Navigation\<close>

text \<open>
  C6: \<open>navigateToStep\<close> with a step beyond \<open>currentStep\<close> returns the state it was
  given: the configuration and the stored snapshot are unchanged, and nothing is raised.
\<close>

theorem navigateToStep_ahead_is_noop:
  "currentStep (getCurrentConfiguration s) < step \<Longrightarrow> navigateToStep step s = s"
  by (simp add: navigateToStep_def Let_def)

theorem navigateToStep_ahead_is_noop_witness:
  "currentStep (getCurrentConfiguration fresh_service) < 3
   \<and> navigateToStep 3 fresh_service = fresh_service"
  using navigateToStep_ahead_is_noop [of fresh_service 3]
  by (simp add: fresh_service_def getCurrentConfiguration_def initialConfiguration_def)

lemma perform_keeps_currentStep:
  "keeps_position op \<Longrightarrow>
   currentStep (getCurrentConfiguration s) \<le> currentStep (getCurrentConfiguration (perform op s))"
  by (cases op)
    (simp_all add: updateStep1_def updateStep2_def updateStep3_def completeConfiguration_def
      markAsGenerated_def Let_def)

lemma perform_all_keeps_currentStep:
  "list_all keeps_position ops \<Longrightarrow>
   currentStep (getCurrentConfiguration s) \<le> currentStep (getCurrentConfiguration (perform_all ops s))"
proof (induction ops arbitrary: s)
  case Nil
  show ?case by simp
next
  case (Cons op ops)
  from Cons.prems have "keeps_position op" and rest: "list_all keeps_position ops"
    by simp_all
  then have "currentStep (getCurrentConfiguration s)
      \<le> currentStep (getCurrentConfiguration (perform op s))"
    by (simp add: perform_keeps_currentStep)
  also have "\<dots> \<le> currentStep (getCurrentConfiguration (perform_all ops (perform op s)))"
    using rest by (rule Cons.IH)
  finally show ?case by simp
qed

text \<open>
  C4, as the claim states it, fails: after step 1 is saved the wizard is at step 2, and
  \<open>navigateToStep(1)\<close>, which the Previous button of step 2 calls, takes
  \<open>currentStep\<close> back to 1 without any reset.
\<close>

theorem navigateToStep_lowers_currentStep:
  "currentStep (getCurrentConfiguration (updateStep1 readme_step1 fresh_service)) = 2
   \<and> currentStep (getCurrentConfiguration
        (perform_all [NavigateToStep 1] (updateStep1 readme_step1 fresh_service))) = 1"
  by (simp add: navigateToStep_def updateStep1_def Let_def getCurrentConfiguration_def
      updateConfiguration_def fresh_service_def initialConfiguration_def)

text \<open>
  C4, amended: along every sequence of \<open>updateStep1\<close>, \<open>updateStep2\<close>,
  \<open>updateStep3\<close>, \<open>markAsGenerated\<close> and \<open>completeConfiguration\<close> the
  \<open>currentStep\<close> never decreases. \<open>navigateToStep(step)\<close> sets \<open>currentStep\<close>
  to \<open>step\<close> when \<open>step \<le> currentStep\<close> and leaves it otherwise, so it can lower
  \<open>currentStep\<close> and never raises it; \<open>resetConfiguration\<close> sets it to 1.
\<close>

theorem currentStep_lowered_only_by_navigation_and_reset:
  "(list_all keeps_position ops \<longrightarrow>
      currentStep (getCurrentConfiguration s)
        \<le> currentStep (getCurrentConfiguration (perform_all ops s)))
   \<and> currentStep (getCurrentConfiguration (navigateToStep step s))
       = (if step \<le> currentStep (getCurrentConfiguration s) then step
          else currentStep (getCurrentConfiguration s))
   \<and> currentStep (getCurrentConfiguration (navigateToStep step s))
       \<le> currentStep (getCurrentConfiguration s)
   \<and> currentStep (getCurrentConfiguration (resetConfiguration s)) = 1"
proof -
  have nav: "currentStep (getCurrentConfiguration (navigateToStep step s))
       = (if step \<le> currentStep (getCurrentConfiguration s) then step
          else currentStep (getCurrentConfiguration s))"
    by (simp add: navigateToStep_def Let_def getCurrentConfiguration_def)
  have reset: "currentStep (getCurrentConfiguration (resetConfiguration s)) = 1"
    by (simp add: resetConfiguration_def initialConfiguration_def)
  from nav reset perform_all_keeps_currentStep [of ops s] show ?thesis
    by simp
qed

theorem currentStep_lowered_only_by_navigation_and_reset_witness:
  "list_all keeps_position
     [UpdateStep1 readme_step1, UpdateStep2 readme_step2, CompleteConfiguration, MarkAsGenerated]
   \<and> currentStep (getCurrentConfiguration fresh_service) = 1
   \<and> currentStep (getCurrentConfiguration fresh_service)
       \<le> currentStep (getCurrentConfiguration (perform_all
            [UpdateStep1 readme_step1, UpdateStep2 readme_step2, CompleteConfiguration,
             MarkAsGenerated] fresh_service))
   \<and> currentStep (getCurrentConfiguration (navigateToStep 3 fresh_service)) = 1"
proof -
  have cur: "currentStep (getCurrentConfiguration fresh_service) = 1"
    by (simp add: fresh_service_def getCurrentConfiguration_def initialConfiguration_def)
  have ops: "list_all keeps_position
     [UpdateStep1 readme_step1, UpdateStep2 readme_step2, CompleteConfiguration, MarkAsGenerated]"
    by simp
  from cur ops currentStep_lowered_only_by_navigation_and_reset
    [of "[UpdateStep1 readme_step1, UpdateStep2 readme_step2, CompleteConfiguration,
          MarkAsGenerated]" fresh_service 3]
  show ?thesis by simp
qed

section \<open>The saved snapshot\<close>

text \<open>
  Every operation that goes through \<open>updateConfiguration\<close> saves the serialization of
  the new configuration, where there is a \<open>localStorage\<close>.
\<close>

lemma updateConfiguration_saves:
  "localStorage s \<noteq> None \<Longrightarrow>
   savedConfiguration (updateConfiguration c s) = Some (stringify_object (ConfigurationData_js c))"
  by (auto simp: savedConfiguration_def updateConfiguration_def)

lemma perform_saves:
  "localStorage s \<noteq> None \<Longrightarrow> keeps_position op \<or> op = ResetConfiguration \<Longrightarrow>
   savedConfiguration (perform op s)
     = Some (stringify_object (ConfigurationData_js (getCurrentConfiguration (perform op s))))"
  by (cases op)
    (simp_all add: updateStep1_def updateStep2_def updateStep3_def completeConfiguration_def
      markAsGenerated_def resetConfiguration_def Let_def updateConfiguration_saves)

lemma navigateToStep_saves_nothing:
  "savedConfiguration (navigateToStep step s) = savedConfiguration s"
  by (simp add: savedConfiguration_def navigateToStep_def Let_def)

lemma Number_toString_1_2: "Number_toString 1 = [49]" "Number_toString 2 = [50]"
  by (simp_all add: Number_toString_def int_toString_def nat_digits.simps digit_def)

text \<open>
  C5: \<open>navigateToStep\<close> changes the configuration and saves nothing. After step 1 is
  saved and the wizard is taken back to step 1, the configuration has \<open>currentStep\<close> 1,
  and the saved snapshot is still the serialization of the configuration with
  \<open>currentStep\<close> 2, which is not the serialization of the current one.
\<close>

theorem navigateToStep_leaves_snapshot_stale:
  "getCurrentConfiguration (navigateToStep 1 (updateStep1 readme_step1 fresh_service))
     = (getCurrentConfiguration (updateStep1 readme_step1 fresh_service))\<lparr>currentStep := 1\<rparr>
   \<and> savedConfiguration (navigateToStep 1 (updateStep1 readme_step1 fresh_service))
     = Some (stringify_object (ConfigurationData_js
         (getCurrentConfiguration (updateStep1 readme_step1 fresh_service))))
   \<and> savedConfiguration (navigateToStep 1 (updateStep1 readme_step1 fresh_service))
     \<noteq> Some (stringify_object (ConfigurationData_js
         (getCurrentConfiguration (navigateToStep 1 (updateStep1 readme_step1 fresh_service)))))"
proof -
  let ?s = "updateStep1 readme_step1 fresh_service"
  have cur: "currentStep (getCurrentConfiguration ?s) = 2"
    by (simp add: updateStep1_def Let_def getCurrentConfiguration_def
      updateConfiguration_def fresh_service_def initialConfiguration_def)
  have nav: "getCurrentConfiguration (navigateToStep 1 ?s)
      = (getCurrentConfiguration ?s)\<lparr>currentStep := 1\<rparr>"
    using cur by (simp add: navigateToStep_def Let_def getCurrentConfiguration_def)
  have saved: "savedConfiguration (navigateToStep 1 ?s)
      = Some (stringify_object (ConfigurationData_js (getCurrentConfiguration ?s)))"
    by (simp add: navigateToStep_saves_nothing updateStep1_def Let_def
        updateConfiguration_saves fresh_service_def)
  have differ: "stringify_object (ConfigurationData_js c)
      \<noteq> stringify_object (ConfigurationData_js (c\<lparr>currentStep := 1\<rparr>))"
    if "currentStep c = 2" for c
    using that
    by (simp add: stringify_object_def ConfigurationData_js_def Number_toString_1_2)
  from nav saved differ [OF cur] show ?thesis by simp
qed

section \<open>Total racks\<close>

text \<open>
  The rounded quotient: \<open>binade\<close> gives a power of two below its argument, the
  rounding moves a quotient by half a unit in the last place at most, and the whole
  numbers below \<open>2^53\<close> are doubles.
\<close>

lemma binade_le:
  assumes "0 < q"
  shows "power_int 2 (binade q) \<le> q"
proof -
  obtain a b where ab: "quotient_of q = (a, b)" by (cases "quotient_of q")
  then have b: "0 < b" and q: "q = of_int a / of_int b"
    by (simp_all add: quotient_of_denom_pos quotient_of_div)
  from assms q b have a: "0 < a"
    by (simp add: zero_less_divide_iff)
  define e where "e = bitlen a - bitlen b"
  have "power_int 2 (e - 1) \<le> q"
  proof -
    have la: "(2::int) ^ nat (bitlen a - 1) \<le> a" using bitlen_bounds [OF a] by simp
    have lb: "b < (2::int) ^ nat (bitlen b)" using bitlen_bounds [OF b] by simp
    have pa: "1 \<le> bitlen a" using a bitlen_eq_zero_iff [of a] bitlen_nonneg [of a] by linarith
    have ra: "(2::rat) ^ nat (bitlen a - 1) \<le> of_int a"
      using la by (metis of_int_le_iff of_int_numeral of_int_power)
    have rb: "of_int b \<le> (2::rat) ^ nat (bitlen b)"
      using lb by (metis less_imp_le of_int_le_iff of_int_numeral of_int_power)
    have b0: "(0::rat) < of_int b" using b by simp
    have p0: "(0::rat) \<le> of_int a" using a by simp
    have "(2::rat) ^ nat (bitlen a - 1) / 2 ^ nat (bitlen b) \<le> of_int a / of_int b"
      using p0 ra b0 rb by (rule frac_le)
    moreover have "power_int (2::rat) (e - 1) = 2 ^ nat (bitlen a - 1) / 2 ^ nat (bitlen b)"
    proof -
      define na where "na = nat (bitlen a - 1)"
      define nb where "nb = nat (bitlen b)"
      have "e - 1 = int na - int nb"
        using pa bitlen_nonneg [of b] by (simp add: e_def na_def nb_def)
      then have "power_int (2::rat) (e - 1) = power_int 2 (int na) / power_int 2 (int nb)"
        using power_int_diff [of "2::rat" "int na" "int nb"] by simp
      then have "power_int (2::rat) (e - 1) = 2 ^ na / 2 ^ nb"
        by (simp only: power_int_of_nat)
      then show ?thesis
        unfolding na_def nb_def .
    qed
    ultimately show ?thesis by (simp add: q)
  qed
  then show ?thesis
    by (simp add: binade_def ab e_def [symmetric] Let_def)
qed

lemma round_half_even_close: "\<bar>of_int (round_half_even m) - m\<bar> \<le> 1 / 2"
proof -
  have "of_int \<lfloor>m\<rfloor> \<le> m" "m < of_int \<lfloor>m\<rfloor> + 1" by linarith+
  then show ?thesis
    by (auto simp: round_half_even_def Let_def abs_le_iff)
qed

lemma round_half_even_of_int: "round_half_even (of_int k) = k"
  by (simp add: round_half_even_def)

lemma round_double_close:
  assumes "0 < q"
  shows "\<bar>round_double q - q\<bar> \<le> power_int 2 (max (binade q) (- 1022) - 53)"
proof -
  define e where "e = max (binade q) (- 1022)"
  define ulp :: rat where "ulp = power_int 2 (e - 52)"
  have ulp: "0 < ulp" by (simp add: ulp_def)
  have rd: "round_double q = of_int (round_half_even (q / ulp)) * ulp"
    using assms by (simp add: round_double_def Let_def e_def ulp_def)
  have "\<bar>of_int (round_half_even (q / ulp)) - q / ulp\<bar> * ulp \<le> 1 / 2 * ulp"
    using round_half_even_close [of "q / ulp"] ulp by (intro mult_right_mono) simp_all
  moreover have "\<bar>of_int (round_half_even (q / ulp)) - q / ulp\<bar> * ulp
      = \<bar>of_int (round_half_even (q / ulp)) * ulp - q\<bar>"
  proof -
    have "(of_int (round_half_even (q / ulp)) - q / ulp) * ulp
        = of_int (round_half_even (q / ulp)) * ulp - q"
      using ulp by (simp add: left_diff_distrib)
    then have "\<bar>of_int (round_half_even (q / ulp)) * ulp - q\<bar>
        = \<bar>of_int (round_half_even (q / ulp)) - q / ulp\<bar> * \<bar>ulp\<bar>"
      by (metis abs_mult)
    then show ?thesis using ulp by simp
  qed
  moreover have "1 / 2 * ulp = power_int 2 (e - 53)"
    by (simp add: ulp_def power_int_diff)
  ultimately show ?thesis
    by (simp add: rd e_def)
qed

lemma power_int_two_less_exp:
  assumes "power_int (2::rat) e \<le> x" and "x < 2 ^ n"
  shows "e < int n"
proof (rule ccontr)
  assume "\<not> e < int n"
  then have "int n \<le> e" by simp
  then have "power_int (2::rat) (int n) \<le> power_int 2 e"
    by (intro power_int_increasing) simp_all
  with assms show False by simp
qed

lemma round_double_of_int:
  assumes "0 < k" and "k < 2 ^ 53"
  shows "round_double (of_int k) = of_int k"
proof -
  have kq: "(0::rat) < of_int k" "(of_int k :: rat) < 2 ^ 53"
    using assms by (simp, metis of_int_less_iff of_int_numeral of_int_power)
  define e where "e = max (binade (of_int k)) (- 1022)"
  have "binade (of_int k) < 53"
    using power_int_two_less_exp [OF binade_le [OF kq(1)] kq(2)] by simp
  then have e: "e \<le> 52" by (simp add: e_def)
  define n where "n = nat (52 - e)"
  have ulp: "power_int (2::rat) (e - 52) = 1 / 2 ^ n"
  proof -
    have "e - 52 = - int n" using e by (simp add: n_def)
    then show ?thesis by (simp add: power_int_minus_divide)
  qed
  have "of_int k / (1 / 2 ^ n) = (of_int (k * 2 ^ n) :: rat)"
    by simp
  then have "round_half_even (of_int k / (1 / 2 ^ n)) = k * 2 ^ n"
    by (simp only: round_half_even_of_int)
  then show ?thesis
    using kq(1) by (simp add: round_double_def Let_def e_def [symmetric] ulp)
qed

lemma ceiling_round_double_quotient:
  assumes a: "0 < a" "a < 2 ^ 53" and b: "0 < b" "b < 2 ^ 53"
  shows "\<lceil>round_double (of_int a / of_int b)\<rceil> = \<lceil>(of_int a / of_int b :: rat)\<rceil>"
proof (cases "b dvd a")
  case True
  then obtain k where k: "a = b * k" ..
  with a b have k0: "0 < k"
    by (simp add: zero_less_mult_iff)
  have "k \<le> a"
    using k k0 b by (simp add: mult_le_cancel_right1 [of k b] mult.commute)
  with a have k1: "k < 2 ^ 53" by simp
  have "(of_int a / of_int b :: rat) = of_int k"
    using b k by simp
  then show ?thesis
    using round_double_of_int [OF k0 k1] by simp
next
  case False
  define q :: rat where "q = of_int a / of_int b"
  define d where "d = a div b"
  define r where "r = a mod b"
  have r: "0 < r" "r < b"
    using False b pos_mod_sign [of b a] pos_mod_bound [of b a]
    by (simp_all add: r_def dvd_eq_mod_eq_0 less_le)
  have rb: "(0::rat) < of_int b" using b by simp
  have q0: "0 < q" using a b by (simp add: q_def)
  have "a = b * d + r" by (simp add: d_def r_def)
  then have "(of_int a :: rat) = of_int b * of_int d + of_int r"
    by (metis of_int_add of_int_mult)
  then have qd: "q = of_int d + of_int r / of_int b"
    using rb by (simp add: q_def add_divide_distrib)
  have lo: "of_int d + 1 / of_int b \<le> q"
    using r rb by (simp add: qd divide_le_cancel)
  have hi: "q + 1 / of_int b \<le> of_int d + 1"
  proof -
    have "(of_int r + 1 :: rat) \<le> of_int b"
      using r by (metis of_int_1 of_int_add of_int_le_iff zless_imp_add1_zle)
    then have "(of_int r + 1) / of_int b \<le> (1::rat)"
      using rb by (simp add: pos_divide_le_eq)
    then show ?thesis by (simp add: qd add_divide_distrib)
  qed
  have ceil: "\<lceil>q\<rceil> = d + 1"
  proof (rule ceiling_unique)
    show "of_int (d + 1) - 1 < q" using lo rb
      by (simp add: less_le_trans [of _ "of_int d + 1 / of_int b"])
    show "q \<le> of_int (d + 1)" using hi rb
      by (simp add: order_trans [of _ "q + 1 / of_int b"])
  qed
  define E where "E = max (binade q) (- 1022)"
  have qb: "q < 2 ^ 53 / of_int b"
  proof -
    have "(of_int a :: rat) < 2 ^ 53"
      using a by (metis of_int_less_iff of_int_numeral of_int_power)
    then show ?thesis using rb by (simp add: q_def divide_strict_right_mono)
  qed
  have "power_int (2::rat) E < 2 ^ 53 / of_int b"
  proof (cases "binade q \<le> - 1022")
    case True
    then have "E = - 1022" by (simp add: E_def)
    then have "power_int (2::rat) E \<le> 1"
      by (simp add: power_int_minus_divide)
    moreover have "(of_int b :: rat) < 2 ^ 53"
      using b by (metis of_int_less_iff of_int_numeral of_int_power)
    then have "(1::rat) < 2 ^ 53 / of_int b"
      using rb by (simp add: pos_less_divide_eq)
    ultimately show ?thesis by simp
  next
    case False
    then have "E = binade q" by (simp add: E_def)
    then show ?thesis using binade_le [OF q0] qb by simp
  qed
  then have "power_int (2::rat) E / 2 ^ 53 < 1 / of_int b"
    by (simp add: pos_divide_less_eq)
  moreover have "power_int (2::rat) (E - 53) = power_int 2 E / 2 ^ 53"
    using power_int_diff [of "2::rat" E 53] by simp
  ultimately have "\<bar>round_double q - q\<bar> < 1 / of_int b"
    using round_double_close [OF q0] by (simp add: E_def)
  then have "of_int d < round_double q" "round_double q < of_int d + 1"
    using lo hi by (simp_all add: abs_less_iff)
  then have "\<lceil>round_double q\<rceil> = d + 1"
    by (intro ceiling_unique) simp_all
  with ceil show ?thesis by (simp add: q_def)
qed

text \<open>
  C7, as the claim states it, fails: 13510798882111492 and 4503599627370497 are doubles,
  the first is three times the second plus one, the ceiling of their quotient is 4, and
  \<open>calculateTotalRacks\<close> returns 3, because the quotient rounds to the double 3
  before \<open>Math.ceil\<close> sees it.
\<close>

theorem calculateTotalRacks_below_ceiling:
  "round_double 13510798882111492 = 13510798882111492
   \<and> round_double 4503599627370497 = 4503599627370497
   \<and> calculateTotalRacks (Some 13510798882111492) (Some 4503599627370497) = 3
   \<and> \<lceil>(13510798882111492 :: rat) / 4503599627370497\<rceil> = 4"
proof -
  have "round_double 13510798882111492 = 13510798882111492"
    "round_double 4503599627370497 = 4503599627370497"
    "round_double (13510798882111492 / 4503599627370497) = 3"
    by code_simp+
  moreover have "\<lceil>(13510798882111492 :: rat) / 4503599627370497\<rceil> = 4"
    by (simp add: ceiling_eq_iff)
  ultimately show ?thesis
    by (simp add: calculateTotalRacks_def Math_ceil_def js_div_def)
qed

text \<open>
  C7, amended: for whole numbers \<open>nodes\<close> and \<open>nodesPerRack\<close> that are positive
  and below \<open>2^53\<close>, \<open>calculateTotalRacks\<close> is the ceiling of their quotient, that
  is the least whole number of racks that hold the nodes; it is 2 for 8 nodes by 4 and
  for 5 nodes by 4; and it is 0 when either input is null or 0.
\<close>

theorem calculateTotalRacks_ceiling:
  "(0 < a \<and> a < 2 ^ 53 \<and> 0 < b \<and> b < 2 ^ 53 \<longrightarrow>
      calculateTotalRacks (Some (of_int a)) (Some (of_int b))
        = of_int \<lceil>(of_int a / of_int b :: rat)\<rceil>
      \<and> of_int a \<le> calculateTotalRacks (Some (of_int a)) (Some (of_int b)) * of_int b
      \<and> (calculateTotalRacks (Some (of_int a)) (Some (of_int b)) - 1) * of_int b < of_int a)
   \<and> calculateTotalRacks (Some 8) (Some 4) = 2
   \<and> calculateTotalRacks (Some 5) (Some 4) = 2
   \<and> calculateTotalRacks None y = 0
   \<and> calculateTotalRacks x None = 0
   \<and> calculateTotalRacks (Some 0) y = 0
   \<and> calculateTotalRacks x (Some 0) = 0"
proof -
  have ceil: "calculateTotalRacks (Some (of_int m)) (Some (of_int k))
      = of_int \<lceil>(of_int m / of_int k :: rat)\<rceil>"
    if "0 < m" "m < 2 ^ 53" "0 < k" "k < 2 ^ 53" for m k
    using that ceiling_round_double_quotient [OF that]
    by (simp add: calculateTotalRacks_def Math_ceil_def js_div_def)
  have pos: "calculateTotalRacks (Some (of_int a)) (Some (of_int b))
        = of_int \<lceil>(of_int a / of_int b :: rat)\<rceil>
      \<and> of_int a \<le> calculateTotalRacks (Some (of_int a)) (Some (of_int b)) * of_int b
      \<and> (calculateTotalRacks (Some (of_int a)) (Some (of_int b)) - 1) * of_int b < of_int a"
    if "0 < a" "a < 2 ^ 53" "0 < b" "b < 2 ^ 53"
  proof -
    define n :: rat where "n = of_int a"
    define d :: rat where "d = of_int b"
    have d: "0 < d" using that by (simp add: d_def)
    have eq: "calculateTotalRacks (Some n) (Some d) = of_int \<lceil>n / d\<rceil>"
      using ceil [OF that] by (simp add: n_def d_def)
    have up: "n \<le> of_int \<lceil>n / d\<rceil> * d"
      using le_of_int_ceiling [of "n / d"]
        pos_divide_le_eq [OF d, of n "of_int \<lceil>n / d\<rceil>"]
      by blast
    have low: "(of_int \<lceil>n / d\<rceil> - 1) * d < n"
      using ceiling_correct [of "n / d", THEN conjunct1]
        pos_less_divide_eq [OF d, of "of_int \<lceil>n / d\<rceil> - 1" n]
      by blast
    from eq up low show ?thesis by (simp add: n_def d_def)
  qed
  have "calculateTotalRacks (Some 8) (Some 4) = 2" "calculateTotalRacks (Some 5) (Some 4) = 2"
    using ceil [of 8 4] ceil [of 5 4] by (simp_all add: ceiling_eq_iff)
  moreover have "calculateTotalRacks None y = 0" "calculateTotalRacks x None = 0"
    "calculateTotalRacks (Some 0) y = 0" "calculateTotalRacks x (Some 0) = 0"
    by (simp_all add: calculateTotalRacks_def split: option.splits)
  ultimately show ?thesis using pos by blast
qed

theorem calculateTotalRacks_ceiling_witness:
  "(0::int) < 5 \<and> (5::int) < 2 ^ 53 \<and> (0::int) < 4 \<and> (4::int) < 2 ^ 53
   \<and> calculateTotalRacks (Some 5) (Some 4) = of_int \<lceil>(5::rat) / 4\<rceil>
   \<and> 5 \<le> calculateTotalRacks (Some 5) (Some 4) * 4
   \<and> (calculateTotalRacks (Some 5) (Some 4) - 1) * 4 < 5
   \<and> calculateTotalRacks (Some 5) (Some 4) = 2"
  using calculateTotalRacks_ceiling [of 5 4 None None] by simp

section \<open>Power consumption\<close>

lemma calculatePowerConsumption_unknown_deployment:
  "selectedPowerConfiguration this = Some pc \<Longrightarrow> selectedRegion this = Some reg \<Longrightarrow>
   config this = Some cfg \<Longrightarrow> step1 (getCurrentConfiguration svc) = Some d \<Longrightarrow>
   get_member (deploymentType d) (js ''id'') = Inr k \<Longrightarrow>
   baseConsumption_at (baseConsumption (powerCalculation cfg)) (ToString k) = None \<Longrightarrow>
   calculatePowerConsumption svc this = Inl TypeError"
  by (simp add: calculatePowerConsumption_def powerConsumption_body_def and_then_def Let_def)

lemma calculatePowerConsumption_known_deployment:
  "selectedPowerConfiguration this = Some pc \<Longrightarrow> selectedRegion this = Some reg \<Longrightarrow>
   config this = Some cfg \<Longrightarrow> step1 (getCurrentConfiguration svc) = Some d \<Longrightarrow>
   get_member (deploymentType d) (js ''id'') = Inr k \<Longrightarrow>
   baseConsumption_at (baseConsumption (powerCalculation cfg)) (ToString k) = Some table \<Longrightarrow>
   calculatePowerConsumption svc this =
     Inr (this\<lparr>calculatedEfficiency' := efficiency pc,
              estimatedPowerConsumption' :=
                of_int \<lfloor>entry_or table (Number_toString (selectedNodes d)) 1000
                         * entry_or (efficiencyMultipliers (powerCalculation cfg)) (pc_id pc) 1
                         * powerMultiplier reg * 10 + 1 / 2\<rfloor> / 10\<rparr>)"
  by (simp add: calculatePowerConsumption_def powerConsumption_body_def and_then_def Let_def
      Math_round_def)

lemma entry_or_missing: "table k = None \<Longrightarrow> entry_or table k dflt = dflt"
  by (simp add: entry_or_def)

lemma edgecluster_unknown:
  "js ''edgecluster'' \<noteq> js ''minicluster''" "js ''edgecluster'' \<noteq> js ''supercluster''"
  by (simp_all add: js_def)

lemma Number_toString_4: "Number_toString 4 = js ''4''"
  by (simp add: Number_toString_def int_toString_def nat_digits.simps digit_def js_def)

text \<open>
  Where the deployment type is in the table and the node count is not, the base is the
  default 1000: with efficiency multiplier 0.9 and regional multiplier 1.1 the estimate
  is 990.
\<close>

lemma calculatePowerConsumption_fallback_example:
  "calculatePowerConsumption (updateStep1 readme_step1 fresh_service) sample_step2_component
     = Inr (sample_step2_component\<lparr>calculatedEfficiency' := 19 / 20,
                                    estimatedPowerConsumption' := 990\<rparr>)"
proof -
  have "js ''4'' \<noteq> js ''8''" by (simp add: js_def)
  then show ?thesis
    by (simp add: calculatePowerConsumption_def powerConsumption_body_def and_then_def Let_def
        sample_step2_component_def sample_step2_config_def updateStep1_def readme_step1_def
        baseConsumption_at_def entry_or_def num_or_def Math_round_def Number_toString_4
        floor_eq_iff)
qed

text \<open>
  C8: with a deployment type whose id is not a key of the table of base consumptions
  (here \<open>edgecluster\<close>), \<open>calculatePowerConsumption\<close> raises a TypeError: it reads
  the node count from the undefined table of that deployment type, before the default
  1000 can apply.
\<close>

theorem calculatePowerConsumption_raises_on_unknown_deployment:
  "calculatePowerConsumption (updateStep1 edge_step1 fresh_service) sample_step2_component
     = Inl TypeError"
  by (simp add: calculatePowerConsumption_def powerConsumption_body_def and_then_def Let_def
      sample_step2_component_def sample_step2_config_def updateStep1_def edge_step1_def
      baseConsumption_at_def edgecluster_unknown)

section \<open>The exported configuration\<close>

lemma getCurrentConfiguration_fresh: "getCurrentConfiguration fresh_service = initialConfiguration"
  by (simp add: fresh_service_def getCurrentConfiguration_def)

lemma and_then_Inr: "and_then (Inr v) f = f v"
  by (simp add: and_then_def)

lemma name_or_empty_selected_name: "name_or_empty v = Inr (selected_name v)"
  by (cases v)
    (simp_all add: name_or_empty_def opt_member_def and_then_def js_or_def selected_name_def
      split: option.splits)

lemma name_or_empty_step_field:
  "name_or_empty (step_field f st) =
     Inr (case st of None \<Rightarrow> JStr [] | Some d \<Rightarrow> selected_name (f d))"
  by (cases st) (simp_all add: step_field_def name_or_empty_selected_name selected_name_def)

lemma step_number_missing:
  "step_number f st = (case st of None \<Rightarrow> 0 | Some d \<Rightarrow> f d)"
  by (simp add: step_number_def num_or_def split: option.splits)

text \<open>
  C9: from every state \<open>getFinalConfiguration\<close> returns and raises nothing. What it
  returns holds, for each option, the name of the selected option, or the empty string
  when the step, the option or its name is missing; for each number, the number of the
  step, or 0 when the step is missing; the reading of the clock as timestamp; the version
  \<open>1.0\<close>; and no pricing. When all three steps are missing every name is the empty
  string and every number is 0.
\<close>

theorem getFinalConfiguration_never_raises:
  "getFinalConfiguration now s =
     Inr \<lparr>system_section =
            \<lparr>system_type =
               (case step1 (getCurrentConfiguration s) of
                  None \<Rightarrow> JStr [] | Some d \<Rightarrow> selected_name (systemType d)),
             system_deployment =
               (case step1 (getCurrentConfiguration s) of
                  None \<Rightarrow> JStr [] | Some d \<Rightarrow> selected_name (deploymentType d)),
             system_nodes =
               (case step1 (getCurrentConfiguration s) of None \<Rightarrow> 0 | Some d \<Rightarrow> selectedNodes d),
             system_nodesPerRack =
               (case step1 (getCurrentConfiguration s) of None \<Rightarrow> 0 | Some d \<Rightarrow> nodesPerRack d),
             system_totalRacks =
               (case step1 (getCurrentConfiguration s) of None \<Rightarrow> 0 | Some d \<Rightarrow> totalRacks d)\<rparr>,
          power_section =
            \<lparr>power_configuration =
               (case step2 (getCurrentConfiguration s) of
                  None \<Rightarrow> JStr [] | Some d \<Rightarrow> selected_name (powerConfiguration d)),
             power_region =
               (case step2 (getCurrentConfiguration s) of
                  None \<Rightarrow> JStr [] | Some d \<Rightarrow> selected_name (region d)),
             power_efficiency =
               (case step2 (getCurrentConfiguration s) of
                  None \<Rightarrow> 0 | Some d \<Rightarrow> calculatedEfficiency d),
             power_estimatedConsumption =
               (case step2 (getCurrentConfiguration s) of
                  None \<Rightarrow> 0 | Some d \<Rightarrow> estimatedPowerConsumption d)\<rparr>,
          storage_section =
            \<lparr>storage_protocol =
               (case step3 (getCurrentConfiguration s) of
                  None \<Rightarrow> JStr [] | Some d \<Rightarrow> selected_name (storageProtocol d)),
             storage_vendor =
               (case step3 (getCurrentConfiguration s) of
                  None \<Rightarrow> JStr [] | Some d \<Rightarrow> selected_name (storageVendor d)),
             storage_support =
               (case step3 (getCurrentConfiguration s) of
                  None \<Rightarrow> JStr [] | Some d \<Rightarrow> selected_name (supportOption d))\<rparr>,
          timestamp = now,
          version = js ''1.0'',
          pricing = None\<rparr>
   \<and> (step1 (getCurrentConfiguration s) = None \<and> step2 (getCurrentConfiguration s) = None
        \<and> step3 (getCurrentConfiguration s) = None \<longrightarrow>
      getFinalConfiguration now s =
        Inr \<lparr>system_section =
               \<lparr>system_type = JStr [], system_deployment = JStr [], system_nodes = 0,
                system_nodesPerRack = 0, system_totalRacks = 0\<rparr>,
             power_section =
               \<lparr>power_configuration = JStr [], power_region = JStr [], power_efficiency = 0,
                power_estimatedConsumption = 0\<rparr>,
             storage_section =
               \<lparr>storage_protocol = JStr [], storage_vendor = JStr [], storage_support = JStr []\<rparr>,
             timestamp = now, version = js ''1.0'', pricing = None\<rparr>)"
  by (simp add: getFinalConfiguration_def Let_def name_or_empty_step_field step_number_missing
      and_then_Inr)

theorem getFinalConfiguration_never_raises_witness:
  "step1 (getCurrentConfiguration fresh_service) = None
   \<and> step2 (getCurrentConfiguration fresh_service) = None
   \<and> step3 (getCurrentConfiguration fresh_service) = None
   \<and> getFinalConfiguration (js ''2025-01-01T00:00:00.000Z'') fresh_service =
        Inr \<lparr>system_section =
               \<lparr>system_type = JStr [], system_deployment = JStr [], system_nodes = 0,
                system_nodesPerRack = 0, system_totalRacks = 0\<rparr>,
             power_section =
               \<lparr>power_configuration = JStr [], power_region = JStr [], power_efficiency = 0,
                power_estimatedConsumption = 0\<rparr>,
             storage_section =
               \<lparr>storage_protocol = JStr [], storage_vendor = JStr [], storage_support = JStr []\<rparr>,
             timestamp = js ''2025-01-01T00:00:00.000Z'', version = js ''1.0'', pricing = None\<rparr>"
proof -
  have none: "step1 (getCurrentConfiguration fresh_service) = None
     \<and> step2 (getCurrentConfiguration fresh_service) = None
     \<and> step3 (getCurrentConfiguration fresh_service) = None"
    by (simp add: fresh_service_def getCurrentConfiguration_def initialConfiguration_def)
  with getFinalConfiguration_never_raises [of "js ''2025-01-01T00:00:00.000Z''" fresh_service]
  show ?thesis by blast
qed

text \<open>A step that is there with an option that is not: the deployment type is null.\<close>

lemma getFinalConfiguration_partial_example:
  "getFinalConfiguration now
     (updateStep1 (readme_step1\<lparr>deploymentType := JNull\<rparr>) fresh_service) =
   Inr \<lparr>system_section =
          \<lparr>system_type = JStr (js ''DataCore X300''), system_deployment = JStr [],
           system_nodes = 4, system_nodesPerRack = 4, system_totalRacks = 1\<rparr>,
        power_section =
          \<lparr>power_configuration = JStr [], power_region = JStr [], power_efficiency = 0,
           power_estimatedConsumption = 0\<rparr>,
        storage_section =
          \<lparr>storage_protocol = JStr [], storage_vendor = JStr [], storage_support = JStr []\<rparr>,
        timestamp = now, version = js ''1.0'', pricing = None\<rparr>"
proof -
  have name: "js ''name'' \<noteq> js ''id''" "js ''DataCore X300'' \<noteq> []"
    by (simp_all add: js_def)
  have cfg: "getCurrentConfiguration (updateStep1 (readme_step1\<lparr>deploymentType := JNull\<rparr>) fresh_service)
      = initialConfiguration\<lparr>step1 := Some (readme_step1\<lparr>deploymentType := JNull\<rparr>), currentStep := 2\<rparr>"
    using getCurrentConfiguration_fresh
    by (simp add: updateStep1_def Let_def initialConfiguration_def)
  show ?thesis
    unfolding getFinalConfiguration_def cfg
    by (simp add: Let_def name_or_empty_step_field step_number_missing and_then_Inr
        initialConfiguration_def readme_step1_def selected_name_def name)
qed

end
